theory Spec2Isabelle
  imports Main "HOL-Library.Word" "HOL-Library.Multiset"
begin

section \<open>The store\<close>

text \<open>
  The repository talks to a PostgreSQL store through Supabase. The tables are declared in
  \<^verbatim>\<open>backend/schema.sql\<close>, which is not among the sources, so the rows below carry the
  columns that the sources read or write. What the store does on its own is a parameter of
  every operation, the record \<open>postgres\<close>:
  \<^item> \<open>uuid_in\<close> and \<open>timestamptz_in\<close> cast text to \<^verbatim>\<open>uuid\<close> and to \<^verbatim>\<open>timestamptz\<close>,
    \<open>None\<close> when the text is refused;
  \<^item> \<open>tasks_id_default\<close> is the id that the store gives to a new task;
  \<^item> \<open>tasks_check\<close> tells whether the store takes a new row of \<^verbatim>\<open>tasks\<close> (its constraints);
  \<^item> \<open>unavailable\<close> tells that the store answers every request with an error.

  A \<^verbatim>\<open>uuid\<close> is a 128-bit value. A \<^verbatim>\<open>timestamptz\<close> is a number of microseconds since the
  epoch, the resolution of the store; the JavaScript side counts milliseconds.
\<close>

type_synonym uuid = "128 word"

type_synonym timestamptz = int

record leads_row =
  tenant_id :: "uuid option"
  owner_id :: "uuid option"
  team_id :: "uuid option"

record user_teams_row =
  ut_user_id :: "uuid option"
  ut_team_id :: "uuid option"

record applications_row =
  app_id :: uuid
  app_tenant_id :: "uuid option"

record tasks_row =
  tasks_id :: uuid
  tasks_tenant_id :: "uuid option"
  tasks_application_id :: uuid
  tasks_type :: string
  tasks_due_at :: timestamptz
  tasks_status :: string

record db =
  applications :: "applications_row list"
  tasks :: "tasks_row list"

record postgres =
  uuid_in :: "string \<Rightarrow> uuid option"
  timestamptz_in :: "string \<Rightarrow> timestamptz option"
  tasks_id_default :: "db \<Rightarrow> uuid"
  tasks_check :: "db \<Rightarrow> tasks_row \<Rightarrow> bool"
  unavailable :: bool

section \<open>Row-level security on leads\<close>

subsection \<open>SQL booleans\<close>

text \<open>
  A policy expression is evaluated in SQL's three-valued logic: \<open>None\<close> is NULL. A
  comparison with NULL is NULL, \<^verbatim>\<open>AND\<close> and \<^verbatim>\<open>OR\<close> are Kleene's, \<^verbatim>\<open>x IN (v, ...)\<close> is the
  disjunction of the comparisons, \<^verbatim>\<open>EXISTS\<close> is never NULL.
\<close>

definition sql_eq :: "'a option \<Rightarrow> 'a option \<Rightarrow> bool option" where
  "sql_eq a b = (case a of None \<Rightarrow> None | Some x \<Rightarrow> (case b of None \<Rightarrow> None | Some y \<Rightarrow> Some (x = y)))"

fun sql_and :: "bool option \<Rightarrow> bool option \<Rightarrow> bool option" where
  "sql_and (Some False) _ = Some False"
| "sql_and _ (Some False) = Some False"
| "sql_and (Some True) (Some True) = Some True"
| "sql_and _ _ = None"

fun sql_or :: "bool option \<Rightarrow> bool option \<Rightarrow> bool option" where
  "sql_or (Some True) _ = Some True"
| "sql_or _ (Some True) = Some True"
| "sql_or (Some False) (Some False) = Some False"
| "sql_or _ _ = None"

fun sql_in :: "'a option \<Rightarrow> 'a list \<Rightarrow> bool option" where
  "sql_in a [] = Some False"
| "sql_in a (v # vs) = sql_or (sql_eq a (Some v)) (sql_in a vs)"

subsection \<open>The caller, as the policies see it\<close>

text \<open>
  \<open>auth_jwt a k\<close> is \<^verbatim>\<open>auth.jwt() ->> k\<close> (the claim of the caller's token as text, NULL
  when absent) and \<open>auth_uid\<close> is \<^verbatim>\<open>auth.uid()\<close>. Both functions belong to the platform and
  the model takes their results as given.
\<close>

record auth =
  auth_jwt :: "string \<Rightarrow> string option"
  auth_uid :: "uuid option"

text \<open>
  \<^verbatim>\<open>auth.role()\<close> belongs to the platform too: it returns the \<^verbatim>\<open>role\<close> claim of the
  caller's token, the very value that \<^verbatim>\<open>auth.jwt() ->> 'role'\<close> reads.
\<close>

definition auth_role :: "auth \<Rightarrow> string option" where
  "auth_role a = auth_jwt a ''role''"

datatype sql_error = invalid_text_representation

text \<open>\<^verbatim>\<open>(auth.jwt() ->> 'tenant_id')::uuid\<close>: the cast of NULL is NULL, the cast of text
  that is no uuid aborts the statement.\<close>

definition jwt_tenant_id :: "postgres \<Rightarrow> auth \<Rightarrow> sql_error + uuid option" where
  "jwt_tenant_id pg a =
     (case auth_jwt a ''tenant_id'' of
        None \<Rightarrow> Inr None
      | Some txt \<Rightarrow>
          (case uuid_in pg txt of
             None \<Rightarrow> Inl invalid_text_representation
           | Some u \<Rightarrow> Inr (Some u)))"

subsection \<open>The policies\<close>

text \<open>
  \<^verbatim>\<open>exists (select 1 from user_teams ut
           where ut.user_id = auth.uid() and ut.team_id = leads.team_id)\<close>:
  the rows for which the condition is true (not NULL) are selected.
\<close>

definition user_teams_select :: "user_teams_row list \<Rightarrow> auth \<Rightarrow> leads_row \<Rightarrow> user_teams_row list" where
  "user_teams_select user_teams a l =
     filter (\<lambda>ut. sql_and (sql_eq (ut_user_id ut) (auth_uid a))
                           (sql_eq (ut_team_id ut) (team_id l)) = Some True) user_teams"

definition user_teams_exists :: "user_teams_row list \<Rightarrow> auth \<Rightarrow> leads_row \<Rightarrow> bool" where
  "user_teams_exists user_teams a l = (user_teams_select user_teams a l \<noteq> [])"

definition leads_select_policy ::
  "postgres \<Rightarrow> user_teams_row list \<Rightarrow> auth \<Rightarrow> leads_row \<Rightarrow> sql_error + bool option" where
  "leads_select_policy pg user_teams a l =
     (case jwt_tenant_id pg a of
        Inl e \<Rightarrow> Inl e
      | Inr jwt_tenant \<Rightarrow>
          Inr (sql_and (sql_eq (tenant_id l) jwt_tenant)
                 (sql_or
                    (sql_or (sql_eq (auth_jwt a ''role'') (Some ''admin''))
                       (sql_eq (owner_id l) (auth_uid a)))
                    (Some (user_teams_exists user_teams a l)))))"

definition leads_insert_policy :: "postgres \<Rightarrow> auth \<Rightarrow> leads_row \<Rightarrow> sql_error + bool option" where
  "leads_insert_policy pg a l =
     (case jwt_tenant_id pg a of
        Inl e \<Rightarrow> Inl e
      | Inr jwt_tenant \<Rightarrow>
          Inr (sql_and
                 (sql_and (sql_eq (auth_role a) (Some ''authenticated''))
                    (sql_eq (tenant_id l) jwt_tenant))
                 (sql_in (auth_jwt a ''role'') [''admin'', ''counselor''])))"

text \<open>
  A row passes a policy when the expression is true. NULL and false both keep the row
  out, and so does a statement that aborts.
\<close>

datatype decision = Permit | Deny

definition policy_decision :: "sql_error + bool option \<Rightarrow> decision" where
  "policy_decision r = (case r of Inr (Some True) \<Rightarrow> Permit | _ \<Rightarrow> Deny)"

text \<open>The teams of a user, read off \<^verbatim>\<open>user_teams\<close>.\<close>

definition MembershipsOf :: "user_teams_row list \<Rightarrow> uuid \<Rightarrow> uuid set" where
  "MembershipsOf user_teams u =
     set (List.map_filter (\<lambda>ut. if ut_user_id ut = Some u then ut_team_id ut else None) user_teams)"

section \<open>The JavaScript runtime\<close>

text \<open>
  Both programs read the clock and build \<^verbatim>\<open>Date\<close> objects. \<open>Date_now\<close> is the time value
  of \<^verbatim>\<open>new Date()\<close>, in milliseconds since the epoch; \<open>Date_parse s\<close> is the time value
  of \<^verbatim>\<open>new Date(s)\<close>, \<open>None\<close> for \<^verbatim>\<open>NaN\<close> (an invalid date); \<open>LocalTZA t is_utc\<close> is the
  offset of the local time zone, as ECMAScript names it.
\<close>

record js =
  Date_parse :: "string \<Rightarrow> int option"
  Date_now :: int
  LocalTZA :: "int \<Rightarrow> bool \<Rightarrow> int"

definition msPerDay :: int where
  "msPerDay = 86400000"

definition Day :: "int \<Rightarrow> int" where
  "Day t = t div msPerDay"

definition MakeTime :: "int \<Rightarrow> int \<Rightarrow> int \<Rightarrow> int \<Rightarrow> int" where
  "MakeTime hour minute sec ms = hour * 3600000 + minute * 60000 + sec * 1000 + ms"

text \<open>
  \<^verbatim>\<open>date.setHours(hour, min, sec, ms)\<close> on a date with time value \<open>t\<close>: the new time value,
  which the call both stores in the date and returns. The time of day is replaced in local
  time and the result is converted back.
\<close>

definition setHours :: "js \<Rightarrow> int \<Rightarrow> int \<Rightarrow> int \<Rightarrow> int \<Rightarrow> int \<Rightarrow> int" where
  "setHours rt t hour minute sec ms =
     (let local = t + LocalTZA rt t True;
          date = Day local * msPerDay + MakeTime hour minute sec ms
      in date - LocalTZA rt date False)"

text \<open>
  \<^verbatim>\<open>new Date(ms).toISOString()\<close>, sent to the store as a filter on a \<^verbatim>\<open>timestamptz\<close>
  column: the same instant, in microseconds.
\<close>

definition timestamptz_of_ms :: "int \<Rightarrow> timestamptz" where
  "timestamptz_of_ms ms = 1000 * ms"

section \<open>The edge function create-task\<close>

text \<open>
  The body of the request is read at its declared type,
  \<^verbatim>\<open>Partial<CreateTaskPayload>\<close>: each field is a string or is absent. \<open>req_json\<close> is the
  outcome of \<^verbatim>\<open>await req.json()\<close>, \<open>None\<close> when the body is not valid JSON and the call
  throws. \<open>req_auth\<close> is the identity of the caller that the request carries.
\<close>

record CreateTaskPayload =
  application_id :: "string option"
  task_type :: "string option"
  due_at :: "string option"

record request =
  req_method :: string
  req_auth :: auth
  req_json :: "CreateTaskPayload option"

datatype response_body = Error string | Success uuid

record response =
  resp_status :: nat
  resp_body :: response_body

definition json_error :: "nat \<Rightarrow> string \<Rightarrow> response" where
  "json_error code msg = \<lparr>resp_status = code, resp_body = Error msg\<rparr>"

definition VALID_TYPES :: "string list" where
  "VALID_TYPES = [''call'', ''email'', ''review'']"

fun join :: "string \<Rightarrow> string list \<Rightarrow> string" where
  "join sep [] = []"
| "join sep [x] = x"
| "join sep (x # y # ys) = x @ sep @ join sep (y # ys)"

text \<open>The operator \<^verbatim>\<open>!\<close> on a value that is a string or is absent.\<close>

definition falsy :: "string option \<Rightarrow> bool" where
  "falsy v = (case v of None \<Rightarrow> True | Some s \<Rightarrow> s = [])"

text \<open>
  \<^verbatim>\<open>supabase.from('applications').select('tenant_id').eq('id', application_id).single()\<close>:
  \<open>Some\<close> is \<^verbatim>\<open>data\<close>, \<open>None\<close> is an error. \<^verbatim>\<open>single()\<close> is an error unless exactly one row
  matches.
\<close>

definition applications_select_single :: "postgres \<Rightarrow> db \<Rightarrow> string \<Rightarrow> applications_row option" where
  "applications_select_single pg d application =
     (if unavailable pg then None
      else case uuid_in pg application of
        None \<Rightarrow> None
      | Some u \<Rightarrow>
          (case filter (\<lambda>a. app_id a = u) (applications d) of
             [a] \<Rightarrow> Some a
           | _ \<Rightarrow> None))"

text \<open>
  \<^verbatim>\<open>supabase.from("tasks").insert({tenant_id, application_id, type, due_at, status})
    .select().single()\<close>: the store casts the text columns, fills in the id and checks the
  row; \<open>Some\<close> is the new store with the row as \<^verbatim>\<open>data\<close>, \<open>None\<close> is an error.
\<close>

definition tasks_insert ::
  "postgres \<Rightarrow> db \<Rightarrow> uuid option \<Rightarrow> string \<Rightarrow> string \<Rightarrow> string \<Rightarrow> string \<Rightarrow> (db \<times> tasks_row) option" where
  "tasks_insert pg d tenant application type due status =
     (if unavailable pg then None
      else case uuid_in pg application of
        None \<Rightarrow> None
      | Some a \<Rightarrow>
          (case timestamptz_in pg due of
             None \<Rightarrow> None
           | Some t \<Rightarrow>
               (let row = \<lparr>tasks_id = tasks_id_default pg d, tasks_tenant_id = tenant,
                           tasks_application_id = a, tasks_type = type, tasks_due_at = t,
                           tasks_status = status\<rparr>
                in if tasks_check pg d row then Some (d\<lparr>tasks := tasks d @ [row]\<rparr>, row)
                   else None)))"

text \<open>
  The handler passed to \<^verbatim>\<open>serve\<close>. It returns the response and the store it leaves
  behind. What it writes to the console is left out. The first check,
  \<^verbatim>\<open>!application_id || !task_type || !due_at\<close>, passes when the three fields are present
  and none is the empty string, that is, when none is \<open>falsy\<close>.
\<close>

definition serve_handler :: "js \<Rightarrow> postgres \<Rightarrow> db \<Rightarrow> request \<Rightarrow> response \<times> db" where
  "serve_handler rt pg d req =
     (if req_method req \<noteq> ''POST'' then (json_error 405 ''Method not allowed'', d)
      else case req_json req of
        None \<Rightarrow> (json_error 500 ''Internal server error'', d)
      | Some payload \<Rightarrow>
          (case (application_id payload, task_type payload, due_at payload) of
             (Some application, Some type, Some due) \<Rightarrow>
               if application = [] \<or> type = [] \<or> due = []
               then (json_error 400 ''Missing required fields'', d)
               else if type \<notin> set VALID_TYPES
               then (json_error 400
                       (''Invalid task_type. Must be one of: '' @ join '', '' VALID_TYPES), d)
               else
                 (case Date_parse rt due of
                    None \<Rightarrow> (json_error 400 ''due_at must be a valid date in the future'', d)
                  | Some dueDate \<Rightarrow>
                      if dueDate \<le> Date_now rt
                      then (json_error 400 ''due_at must be a valid date in the future'', d)
                      else
                        (case applications_select_single pg d application of
                           None \<Rightarrow> (json_error 400 ''Application not found'', d)
                         | Some appData \<Rightarrow>
                             (case tasks_insert pg d (app_tenant_id appData) application type
                                     due ''open'' of
                                None \<Rightarrow> (json_error 500 ''Failed to create task'', d)
                              | Some (d', data) \<Rightarrow>
                                  (\<lparr>resp_status = 200, resp_body = Success (tasks_id data)\<rparr>,
                                   d'))))
           | _ \<Rightarrow> (json_error 400 ''Missing required fields'', d)))"

section \<open>The dashboard of today's tasks\<close>

text \<open>
  The state of the component \<^verbatim>\<open>TodayDashboard\<close>, with the messages it has shown through
  \<^verbatim>\<open>alert\<close>.
\<close>

record dashboard =
  st_tasks :: "tasks_row list"
  st_loading :: bool
  st_error :: "string option"
  st_alerts :: "string list"

definition startOfDay :: "js \<Rightarrow> int" where
  "startOfDay rt = setHours rt (Date_now rt) 0 0 0 0"

definition endOfDay :: "js \<Rightarrow> int" where
  "endOfDay rt = setHours rt (startOfDay rt) 23 59 59 999"

text \<open>
  \<^verbatim>\<open>supabase.from("tasks").select("*").neq("status", "completed")
    .gte("due_at", startOfDay).lte("due_at", endOfDay).order("due_at", {ascending: true})\<close>
\<close>

definition tasks_select_due :: "postgres \<Rightarrow> db \<Rightarrow> int \<Rightarrow> int \<Rightarrow> tasks_row list option" where
  "tasks_select_due pg d start_ms end_ms =
     (if unavailable pg then None
      else Some (sort_key tasks_due_at
             (filter (\<lambda>t. tasks_status t \<noteq> ''completed'' \<and>
                           timestamptz_of_ms start_ms \<le> tasks_due_at t \<and>
                           tasks_due_at t \<le> timestamptz_of_ms end_ms) (tasks d))))"

definition fetchTasks :: "js \<Rightarrow> postgres \<Rightarrow> db \<Rightarrow> dashboard \<Rightarrow> dashboard" where
  "fetchTasks rt pg d st =
     (let st1 = st\<lparr>st_loading := True, st_error := None\<rparr>
      in case tasks_select_due pg d (startOfDay rt) (endOfDay rt) of
           None \<Rightarrow> st1\<lparr>st_error := Some ''Failed to load tasks'', st_loading := False\<rparr>
         | Some data \<Rightarrow> st1\<lparr>st_tasks := data, st_loading := False\<rparr>)"

text \<open>\<^verbatim>\<open>supabase.from("tasks").update({status: "completed"}).eq("id", id)\<close>\<close>

definition tasks_update_completed :: "postgres \<Rightarrow> db \<Rightarrow> uuid \<Rightarrow> db option" where
  "tasks_update_completed pg d i =
     (if unavailable pg then None
      else Some (d\<lparr>tasks := map (\<lambda>t. if tasks_id t = i then t\<lparr>tasks_status := ''completed''\<rparr>
                                      else t) (tasks d)\<rparr>))"

text \<open>
  \<^verbatim>\<open>markComplete(id)\<close>, called with the id of a row on display. It returns nothing; the
  model returns the state of the component and the store.
\<close>

definition markComplete :: "js \<Rightarrow> postgres \<Rightarrow> db \<Rightarrow> dashboard \<Rightarrow> uuid \<Rightarrow> dashboard \<times> db" where
  "markComplete rt pg d st i =
     (let st1 = st\<lparr>st_tasks := filter (\<lambda>task. tasks_id task \<noteq> i) (st_tasks st)\<rparr>
      in case tasks_update_completed pg d i of
           None \<Rightarrow>
             (fetchTasks rt pg d (st1\<lparr>st_alerts := st_alerts st1 @ [''Failed to update task'']\<rparr>), d)
         | Some d' \<Rightarrow> (st1, d'))"

text \<open>
  The listing as the specification words it, for a principal of tenant \<open>tenant\<close>: the tasks
  of that tenant that are not completed and are due within the day, by due time.
\<close>

definition spec_ListDueToday :: "uuid \<Rightarrow> int \<Rightarrow> int \<Rightarrow> tasks_row list \<Rightarrow> tasks_row list" where
  "spec_ListDueToday tenant start_ms end_ms ts =
     sort_key tasks_due_at
       (filter (\<lambda>t. tasks_tenant_id t = Some tenant \<and> tasks_status t \<noteq> ''completed'' \<and>
                     timestamptz_of_ms start_ms \<le> tasks_due_at t \<and>
                     tasks_due_at t \<le> timestamptz_of_ms end_ms) ts)"

section \<open>Concrete inputs\<close>

text \<open>
  A store with two tenants, \<open>1\<close> and \<open>2\<close>, an application of each, and a counselor of
  tenant \<open>1\<close>; a clock that reads 2030-01-01T00:00:00.000Z in a zone without offset.
\<close>

definition ex_uuid_in :: "string \<Rightarrow> uuid option" where
  "ex_uuid_in s =
     (if s = ''00000000-0000-0000-0000-000000000001'' then Some 1
      else if s = ''00000000-0000-0000-0000-000000000002'' then Some 2
      else if s = ''00000000-0000-0000-0000-0000000000a1'' then Some 161
      else if s = ''00000000-0000-0000-0000-0000000000a2'' then Some 162
      else None)"

definition ex_timestamptz_in :: "string \<Rightarrow> timestamptz option" where
  "ex_timestamptz_in s =
     (if s = ''2030-01-01T00:00:00.000Z'' then Some 1893456000000000
      else if s = ''2030-01-01T00:00:01.000Z'' then Some 1893456001000000
      else None)"

definition ex_Date_parse :: "string \<Rightarrow> int option" where
  "ex_Date_parse s =
     (if s = ''2030-01-01T00:00:00.000Z'' then Some 1893456000000
      else if s = ''2030-01-01T00:00:01.000Z'' then Some 1893456001000
      else None)"

definition ex_pg :: postgres where
  "ex_pg = \<lparr>uuid_in = ex_uuid_in, timestamptz_in = ex_timestamptz_in,
            tasks_id_default = (\<lambda>d. 256 + word_of_nat (length (tasks d))),
            tasks_check = (\<lambda>d row. True), unavailable = False\<rparr>"

definition ex_rt :: js where
  "ex_rt = \<lparr>Date_parse = ex_Date_parse, Date_now = 1893456000000, LocalTZA = (\<lambda>t is_utc. 0)\<rparr>"

definition ex_db :: db where
  "ex_db = \<lparr>applications = [\<lparr>app_id = 161, app_tenant_id = Some 1\<rparr>,
                             \<lparr>app_id = 162, app_tenant_id = Some 2\<rparr>],
            tasks = []\<rparr>"

definition ex_claims :: "string \<Rightarrow> string \<Rightarrow> string \<Rightarrow> string option" where
  "ex_claims tenant role k =
     (if k = ''tenant_id'' then Some tenant else if k = ''role'' then Some role else None)"

definition ex_counselor :: auth where
  "ex_counselor = \<lparr>auth_jwt = ex_claims ''00000000-0000-0000-0000-000000000001'' ''counselor'',
                   auth_uid = Some 81\<rparr>"

definition ex_admin :: auth where
  "ex_admin = \<lparr>auth_jwt = ex_claims ''00000000-0000-0000-0000-000000000001'' ''admin'',
               auth_uid = Some 82\<rparr>"

definition ex_user_teams :: "user_teams_row list" where
  "ex_user_teams = [\<lparr>ut_user_id = Some 81, ut_team_id = Some 113\<rparr>,
                    \<lparr>ut_user_id = Some 81, ut_team_id = None\<rparr>]"

definition ex_payload :: "string \<Rightarrow> string \<Rightarrow> string \<Rightarrow> CreateTaskPayload" where
  "ex_payload application type due =
     \<lparr>application_id = Some application, task_type = Some type, due_at = Some due\<rparr>"

text \<open>A POST request sent by the counselor of tenant \<open>1\<close>.\<close>

definition ex_post :: "CreateTaskPayload \<Rightarrow> request" where
  "ex_post payload = \<lparr>req_method = ''POST'', req_auth = ex_counselor, req_json = Some payload\<rparr>"

text \<open>
  The dashboard at noon of 2030-01-01, over a store with four tasks: one of tenant \<open>1\<close> due
  at the last millisecond of the day, one of tenant \<open>2\<close> due at its first, one due at the
  first millisecond of the next day, and a completed one due at noon.
\<close>

definition ex_noon :: js where
  "ex_noon = \<lparr>Date_parse = ex_Date_parse, Date_now = 1893499200000, LocalTZA = (\<lambda>t is_utc. 0)\<rparr>"

definition ex_task :: "uuid \<Rightarrow> uuid \<Rightarrow> timestamptz \<Rightarrow> string \<Rightarrow> tasks_row" where
  "ex_task i tenant due status =
     \<lparr>tasks_id = i, tasks_tenant_id = Some tenant, tasks_application_id = 160 + tenant,
      tasks_type = ''call'', tasks_due_at = due, tasks_status = status\<rparr>"

definition ex_tasks_db :: db where
  "ex_tasks_db = \<lparr>applications = applications ex_db,
       tasks = [ex_task 256 1 1893542399999000 ''open'',
                ex_task 257 2 1893456000000000 ''open'',
                ex_task 258 1 1893542400000000 ''open'',
                ex_task 259 1 1893499200000000 ''completed'']\<rparr>"

definition ex_dashboard :: dashboard where
  "ex_dashboard = \<lparr>st_tasks = [], st_loading = True, st_error = None, st_alerts = []\<rparr>"

section \<open>Properties of the policies\<close>

lemma sql_eq_True [simp]: "sql_eq a b = Some True \<longleftrightarrow> (\<exists>x. a = Some x \<and> b = Some x)"
  by (auto simp: sql_eq_def split: option.splits)

lemma sql_and_True [simp]: "sql_and p q = Some True \<longleftrightarrow> p = Some True \<and> q = Some True"
  by (cases "(p, q)" rule: sql_and.cases) auto

lemma sql_or_True [simp]: "sql_or p q = Some True \<longleftrightarrow> p = Some True \<or> q = Some True"
  by (cases "(p, q)" rule: sql_or.cases) auto

lemma sql_in_True [simp]: "sql_in a vs = Some True \<longleftrightarrow> (\<exists>v \<in> set vs. a = Some v)"
  by (induction vs) auto

lemma policy_decision_Permit [simp]: "policy_decision r = Permit \<longleftrightarrow> r = Inr (Some True)"
  by (auto simp: policy_decision_def split: sum.splits option.splits bool.splits)

lemma policy_decision_Deny [simp]: "policy_decision r = Deny \<longleftrightarrow> r \<noteq> Inr (Some True)"
  by (auto simp: policy_decision_def split: sum.splits option.splits bool.splits)

lemma user_teams_exists_iff:
  "user_teams_exists user_teams a l \<longleftrightarrow>
     (\<exists>u k. auth_uid a = Some u \<and> team_id l = Some k \<and> k \<in> MembershipsOf user_teams u)"
  by (fastforce simp: user_teams_exists_def user_teams_select_def MembershipsOf_def
      filter_empty_conv List.map_filter_def image_iff split: if_splits)

lemma leads_select_policy_True:
  "leads_select_policy pg user_teams a l = Inr (Some True) \<longleftrightarrow>
     (\<exists>t. jwt_tenant_id pg a = Inr (Some t) \<and> tenant_id l = Some t) \<and>
     (auth_jwt a ''role'' = Some ''admin'' \<or>
      (\<exists>u. auth_uid a = Some u \<and> owner_id l = Some u) \<or>
      user_teams_exists user_teams a l)"
  by (auto simp: leads_select_policy_def split: sum.splits)

lemma leads_insert_policy_True:
  "leads_insert_policy pg a l = Inr (Some True) \<longleftrightarrow>
     auth_role a = Some ''authenticated'' \<and>
     (\<exists>t. jwt_tenant_id pg a = Inr (Some t) \<and> tenant_id l = Some t) \<and>
     (auth_jwt a ''role'' = Some ''admin'' \<or> auth_jwt a ''role'' = Some ''counselor'')"
  by (auto simp: leads_insert_policy_def split: sum.splits)

lemmas ex_defs = ex_payload_def ex_post_def ex_pg_def ex_rt_def ex_db_def ex_uuid_in_def
  ex_timestamptz_in_def ex_Date_parse_def ex_counselor_def ex_admin_def ex_claims_def
  ex_user_teams_def

lemma jwt_tenant_id_ex:
  "jwt_tenant_id ex_pg ex_counselor = Inr (Some 1)" "jwt_tenant_id ex_pg ex_admin = Inr (Some 1)"
  by (simp_all add: jwt_tenant_id_def ex_defs)

text \<open>
  C2. Tenant isolation: when the tenant of the principal (the \<^verbatim>\<open>tenant_id\<close> claim, cast to
  uuid) is not the tenant of the lead, both the select policy and the insert policy deny,
  whatever the role, the owner of the lead, its team and the rows of \<^verbatim>\<open>user_teams\<close>.
\<close>

theorem tenant_isolation:
  assumes "jwt_tenant_id pg a \<noteq> Inr (tenant_id l)"
  shows "policy_decision (leads_select_policy pg user_teams a l) = Deny \<and>
         policy_decision (leads_insert_policy pg a l) = Deny"
  using assms by (auto simp: leads_select_policy_True leads_insert_policy_True)

text \<open>
  An admin of tenant \<open>1\<close> who owns a lead of tenant \<open>2\<close> and is a member of its team is
  denied both ways.
\<close>

theorem tenant_isolation_witness:
  "jwt_tenant_id ex_pg ex_admin \<noteq>
     Inr (tenant_id \<lparr>tenant_id = Some 2, owner_id = Some 82, team_id = Some 113\<rparr>) \<and>
   policy_decision (leads_select_policy ex_pg
      [\<lparr>ut_user_id = Some 82, ut_team_id = Some 113\<rparr>] ex_admin
      \<lparr>tenant_id = Some 2, owner_id = Some 82, team_id = Some 113\<rparr>) = Deny \<and>
   policy_decision (leads_insert_policy ex_pg ex_admin
      \<lparr>tenant_id = Some 2, owner_id = Some 82, team_id = Some 113\<rparr>) = Deny"
  using tenant_isolation [of ex_pg ex_admin
      "\<lparr>tenant_id = Some 2, owner_id = Some 82, team_id = Some 113\<rparr>"
      "[\<lparr>ut_user_id = Some 82, ut_team_id = Some 113\<rparr>]"]
  by (simp add: jwt_tenant_id_ex)

text \<open>
  C3. For a principal with user id \<open>u\<close> and a lead of the principal's tenant, the select
  policy permits exactly when the role is admin, or the lead is owned by \<open>u\<close>, or the lead
  has a team and \<open>u\<close> is a member of it. So a counselor who neither owns the lead nor is a
  member of its team is denied, and a lead without a team is never reached through
  \<^verbatim>\<open>user_teams\<close>.
\<close>

theorem leads_select_same_tenant:
  assumes "jwt_tenant_id pg a = Inr (Some t)" and "tenant_id l = Some t" and "auth_uid a = Some u"
  shows "(policy_decision (leads_select_policy pg user_teams a l) = Permit \<longleftrightarrow>
            auth_jwt a ''role'' = Some ''admin'' \<or> owner_id l = Some u \<or>
            (\<exists>k. team_id l = Some k \<and> k \<in> MembershipsOf user_teams u)) \<and>
         (auth_jwt a ''role'' = Some ''counselor'' \<and> owner_id l \<noteq> Some u \<and>
            (\<forall>k. team_id l = Some k \<longrightarrow> k \<notin> MembershipsOf user_teams u) \<longrightarrow>
            policy_decision (leads_select_policy pg user_teams a l) = Deny) \<and>
         (team_id l = None \<longrightarrow> \<not> user_teams_exists user_teams a l \<and>
            (policy_decision (leads_select_policy pg user_teams a l) = Permit \<longleftrightarrow>
               auth_jwt a ''role'' = Some ''admin'' \<or> owner_id l = Some u))"
  using assms by (auto simp: leads_select_policy_True user_teams_exists_iff)

text \<open>
  The counselor \<open>81\<close> of tenant \<open>1\<close>, member of team \<open>113\<close> and of a row of \<^verbatim>\<open>user_teams\<close>
  without team, reads another user's lead of team \<open>113\<close>, and does not read another user's
  lead without team.
\<close>

theorem leads_select_same_tenant_witness:
  "jwt_tenant_id ex_pg ex_counselor = Inr (Some 1) \<and> auth_uid ex_counselor = Some 81 \<and>
   policy_decision (leads_select_policy ex_pg ex_user_teams ex_counselor
      \<lparr>tenant_id = Some 1, owner_id = Some 82, team_id = Some 113\<rparr>) = Permit \<and>
   policy_decision (leads_select_policy ex_pg ex_user_teams ex_counselor
      \<lparr>tenant_id = Some 1, owner_id = Some 82, team_id = None\<rparr>) = Deny"
proof -
  have h: "jwt_tenant_id ex_pg ex_counselor = Inr (Some 1)" "auth_uid ex_counselor = Some 81"
    by (simp_all add: jwt_tenant_id_ex) (simp add: ex_counselor_def)
  have m: "MembershipsOf ex_user_teams 81 = {113}"
    by (simp add: MembershipsOf_def ex_user_teams_def List.map_filter_simps)
  have r: "auth_jwt ex_counselor ''role'' = Some ''counselor''"
    by (simp add: ex_counselor_def ex_claims_def)
  show ?thesis
    using h m r
      leads_select_same_tenant [OF h(1) _ h(2),
        of "\<lparr>tenant_id = Some 1, owner_id = Some 82, team_id = Some 113\<rparr>" ex_user_teams]
      leads_select_same_tenant [OF h(1) _ h(2),
        of "\<lparr>tenant_id = Some 1, owner_id = Some 82, team_id = None\<rparr>" ex_user_teams]
    by simp
qed

text \<open>
  The insert policy asks for \<^verbatim>\<open>auth.role() = 'authenticated'\<close> and for the \<^verbatim>\<open>role\<close> claim
  to be admin or counselor. Both conditions read the same claim, so they never hold
  together: the policy is true for no caller and no lead.
\<close>

lemma leads_insert_policy_never_true: "leads_insert_policy pg a l \<noteq> Inr (Some True)"
  by (auto simp: leads_insert_policy_True auth_role_def)

text \<open>
  C8. The comments of the insert policy say that the user must be authenticated, that the
  tenant of the row must be the tenant of the token, and that only admins or counselors
  can insert; so an admin or a counselor with a user id who inserts a lead of the own
  tenant should be permitted. The policy denies both: the admin \<open>82\<close> and the counselor
  \<open>81\<close> of tenant \<open>1\<close>, each inserting a lead of tenant \<open>1\<close>.
\<close>

theorem leads_insert_admin_counselor_denied:
  "jwt_tenant_id ex_pg ex_admin = Inr (Some 1) \<and> auth_uid ex_admin = Some 82 \<and>
   auth_jwt ex_admin ''role'' = Some ''admin'' \<and> auth_role ex_admin = Some ''admin'' \<and>
   leads_insert_policy ex_pg ex_admin
      \<lparr>tenant_id = Some 1, owner_id = Some 82, team_id = None\<rparr> = Inr (Some False) \<and>
   policy_decision (leads_insert_policy ex_pg ex_admin
      \<lparr>tenant_id = Some 1, owner_id = Some 82, team_id = None\<rparr>) = Deny \<and>
   jwt_tenant_id ex_pg ex_counselor = Inr (Some 1) \<and> auth_uid ex_counselor = Some 81 \<and>
   auth_jwt ex_counselor ''role'' = Some ''counselor'' \<and>
   auth_role ex_counselor = Some ''counselor'' \<and>
   leads_insert_policy ex_pg ex_counselor
      \<lparr>tenant_id = Some 1, owner_id = Some 82, team_id = None\<rparr> = Inr (Some False) \<and>
   policy_decision (leads_insert_policy ex_pg ex_counselor
      \<lparr>tenant_id = Some 1, owner_id = Some 82, team_id = None\<rparr>) = Deny"
proof -
  have r: "auth_jwt ex_admin ''role'' = Some ''admin''"
    "auth_jwt ex_counselor ''role'' = Some ''counselor''"
    "auth_uid ex_admin = Some 82" "auth_uid ex_counselor = Some 81"
    by (simp_all add: ex_admin_def ex_counselor_def ex_claims_def)
  have e: "leads_insert_policy ex_pg ex_admin
        \<lparr>tenant_id = Some 1, owner_id = Some 82, team_id = None\<rparr> = Inr (Some False)"
    "leads_insert_policy ex_pg ex_counselor
        \<lparr>tenant_id = Some 1, owner_id = Some 82, team_id = None\<rparr> = Inr (Some False)"
    by (simp_all add: leads_insert_policy_def jwt_tenant_id_ex auth_role_def r sql_eq_def)
  show ?thesis
    using r e by (simp add: jwt_tenant_id_ex auth_role_def)
qed

section \<open>Properties of the edge function\<close>

subsection \<open>The branches of the handler\<close>

lemma join_VALID_TYPES: "join '', '' VALID_TYPES = ''call, email, review''"
  by (simp add: VALID_TYPES_def)

lemma set_VALID_TYPES: "set VALID_TYPES = {''call'', ''email'', ''review''}"
  by (auto simp: VALID_TYPES_def)

lemma handler_not_post:
  "req_method req \<noteq> ''POST'' \<Longrightarrow> serve_handler rt pg d req = (json_error 405 ''Method not allowed'', d)"
  by (simp add: serve_handler_def)

lemma handler_unparsable:
  "req_method req = ''POST'' \<Longrightarrow> req_json req = None \<Longrightarrow>
   serve_handler rt pg d req = (json_error 500 ''Internal server error'', d)"
  by (simp add: serve_handler_def)

lemma handler_missing:
  "req_method req = ''POST'' \<Longrightarrow> req_json req = Some payload \<Longrightarrow>
   falsy (application_id payload) \<or> falsy (task_type payload) \<or> falsy (due_at payload) \<Longrightarrow>
   serve_handler rt pg d req = (json_error 400 ''Missing required fields'', d)"
  by (auto simp: serve_handler_def falsy_def split: option.splits)

lemma handler_invalid_type:
  "req_method req = ''POST'' \<Longrightarrow> req_json req = Some payload \<Longrightarrow>
   application_id payload = Some application \<Longrightarrow> application \<noteq> [] \<Longrightarrow>
   task_type payload = Some type \<Longrightarrow> type \<noteq> [] \<Longrightarrow>
   due_at payload = Some due \<Longrightarrow> due \<noteq> [] \<Longrightarrow> type \<notin> set VALID_TYPES \<Longrightarrow>
   serve_handler rt pg d req =
     (json_error 400 (''Invalid task_type. Must be one of: '' @ join '', '' VALID_TYPES), d)"
  by (simp add: serve_handler_def)

lemma handler_bad_date:
  "req_method req = ''POST'' \<Longrightarrow> req_json req = Some payload \<Longrightarrow>
   application_id payload = Some application \<Longrightarrow> application \<noteq> [] \<Longrightarrow>
   task_type payload = Some type \<Longrightarrow> type \<in> set VALID_TYPES \<Longrightarrow>
   due_at payload = Some due \<Longrightarrow> due \<noteq> [] \<Longrightarrow>
   Date_parse rt due = None \<or> (\<exists>t. Date_parse rt due = Some t \<and> t \<le> Date_now rt) \<Longrightarrow>
   serve_handler rt pg d req = (json_error 400 ''due_at must be a valid date in the future'', d)"
  by (auto simp: serve_handler_def VALID_TYPES_def)

lemma handler_validated:
  "req_method req = ''POST'' \<Longrightarrow> req_json req = Some payload \<Longrightarrow>
   application_id payload = Some application \<Longrightarrow> application \<noteq> [] \<Longrightarrow>
   task_type payload = Some type \<Longrightarrow> type \<in> set VALID_TYPES \<Longrightarrow>
   due_at payload = Some due \<Longrightarrow> due \<noteq> [] \<Longrightarrow>
   Date_parse rt due = Some t \<Longrightarrow> Date_now rt < t \<Longrightarrow>
   serve_handler rt pg d req =
     (case applications_select_single pg d application of
        None \<Rightarrow> (json_error 400 ''Application not found'', d)
      | Some appData \<Rightarrow>
          (case tasks_insert pg d (app_tenant_id appData) application type due ''open'' of
             None \<Rightarrow> (json_error 500 ''Failed to create task'', d)
           | Some (d', data) \<Rightarrow> (\<lparr>resp_status = 200, resp_body = Success (tasks_id data)\<rparr>, d')))"
  by (auto simp: serve_handler_def VALID_TYPES_def)

text \<open>Every outcome of the handler, by the branch taken.\<close>

lemma handler_cases:
  obtains
    (not_post) "req_method req \<noteq> ''POST''"
      "serve_handler rt pg d req = (json_error 405 ''Method not allowed'', d)"
  | (unparsable) "req_method req = ''POST''" "req_json req = None"
      "serve_handler rt pg d req = (json_error 500 ''Internal server error'', d)"
  | (missing) payload where "req_method req = ''POST''" "req_json req = Some payload"
      "falsy (application_id payload) \<or> falsy (task_type payload) \<or> falsy (due_at payload)"
      "serve_handler rt pg d req = (json_error 400 ''Missing required fields'', d)"
  | (invalid_type) payload application type due where
      "req_method req = ''POST''" "req_json req = Some payload"
      "application_id payload = Some application" "application \<noteq> []"
      "task_type payload = Some type" "type \<noteq> []" "due_at payload = Some due" "due \<noteq> []"
      "type \<notin> set VALID_TYPES"
      "serve_handler rt pg d req =
         (json_error 400 (''Invalid task_type. Must be one of: '' @ join '', '' VALID_TYPES), d)"
  | (bad_date) payload application type due where
      "req_method req = ''POST''" "req_json req = Some payload"
      "application_id payload = Some application" "application \<noteq> []"
      "task_type payload = Some type" "type \<in> set VALID_TYPES"
      "due_at payload = Some due" "due \<noteq> []"
      "Date_parse rt due = None \<or> (\<exists>t. Date_parse rt due = Some t \<and> t \<le> Date_now rt)"
      "serve_handler rt pg d req = (json_error 400 ''due_at must be a valid date in the future'', d)"
  | (not_found) payload application type due t where
      "req_method req = ''POST''" "req_json req = Some payload"
      "application_id payload = Some application" "application \<noteq> []"
      "task_type payload = Some type" "type \<in> set VALID_TYPES"
      "due_at payload = Some due" "due \<noteq> []"
      "Date_parse rt due = Some t" "Date_now rt < t"
      "applications_select_single pg d application = None"
      "serve_handler rt pg d req = (json_error 400 ''Application not found'', d)"
  | (insert_failed) payload application type due t appData where
      "req_method req = ''POST''" "req_json req = Some payload"
      "application_id payload = Some application" "application \<noteq> []"
      "task_type payload = Some type" "type \<in> set VALID_TYPES"
      "due_at payload = Some due" "due \<noteq> []"
      "Date_parse rt due = Some t" "Date_now rt < t"
      "applications_select_single pg d application = Some appData"
      "tasks_insert pg d (app_tenant_id appData) application type due ''open'' = None"
      "serve_handler rt pg d req = (json_error 500 ''Failed to create task'', d)"
  | (created) payload application type due t appData d' data where
      "req_method req = ''POST''" "req_json req = Some payload"
      "application_id payload = Some application" "application \<noteq> []"
      "task_type payload = Some type" "type \<in> set VALID_TYPES"
      "due_at payload = Some due" "due \<noteq> []"
      "Date_parse rt due = Some t" "Date_now rt < t"
      "applications_select_single pg d application = Some appData"
      "tasks_insert pg d (app_tenant_id appData) application type due ''open'' = Some (d', data)"
      "serve_handler rt pg d req = (\<lparr>resp_status = 200, resp_body = Success (tasks_id data)\<rparr>, d')"
proof (cases "req_method req = ''POST''")
  case False
  then show ?thesis using not_post handler_not_post by blast
next
  case post: True
  show ?thesis
  proof (cases "req_json req")
    case None
    then show ?thesis using unparsable post handler_unparsable by blast
  next
    case (Some payload)
    show ?thesis
    proof (cases "falsy (application_id payload) \<or> falsy (task_type payload) \<or> falsy (due_at payload)")
      case True
      then show ?thesis using missing post Some handler_missing by blast
    next
      case False
      then obtain application type due where f:
        "application_id payload = Some application" "application \<noteq> []"
        "task_type payload = Some type" "type \<noteq> []" "due_at payload = Some due" "due \<noteq> []"
        by (auto simp: falsy_def split: option.splits)
      show ?thesis
      proof (cases "type \<in> set VALID_TYPES")
        case False
        then show ?thesis using invalid_type post Some f handler_invalid_type by blast
      next
        case valid: True
        show ?thesis
        proof (cases "Date_parse rt due = None \<or> (\<exists>t. Date_parse rt due = Some t \<and> t \<le> Date_now rt)")
          case True
          then show ?thesis using bad_date [OF post Some f(1,2,3) valid f(5,6)] handler_bad_date [OF post Some f(1,2,3) valid f(5,6)] by blast
        next
          case False
          then obtain t where t: "Date_parse rt due = Some t" "Date_now rt < t"
            by (cases "Date_parse rt due") auto
          note v = handler_validated [OF post Some f(1,2,3) valid f(5,6) t, of pg d]
          show ?thesis
          proof (cases "applications_select_single pg d application")
            case None
            then show ?thesis using not_found [OF post Some f(1,2,3) valid f(5,6) t] v by simp
          next
            case app: (Some appData)
            show ?thesis
            proof (cases "tasks_insert pg d (app_tenant_id appData) application type due ''open''")
              case None
              then show ?thesis using insert_failed [OF post Some f(1,2,3) valid f(5,6) t app] v app by simp
            next
              case (Some r)
              then obtain d' data where "r = (d', data)" by (cases r)
              then show ?thesis using created [OF post \<open>req_json req = Some payload\<close> f(1,2,3) valid f(5,6) t app] v app Some by simp
            qed
          qed
        qed
      qed
    qed
  qed
qed

lemma tasks_insert_Some:
  assumes "tasks_insert pg d tenant application type due status = Some (d', row)"
  shows "d' = d\<lparr>tasks := tasks d @ [row]\<rparr> \<and> tasks_tenant_id row = tenant \<and>
         tasks_type row = type \<and> tasks_status row = status \<and>
         uuid_in pg application = Some (tasks_application_id row) \<and>
         timestamptz_in pg due = Some (tasks_due_at row)"
  using assms
  by (auto simp: tasks_insert_def Let_def split: if_splits option.splits)

lemma handler_ignores_caller:
  "serve_handler rt pg d (req\<lparr>req_auth := caller\<rparr>) = serve_handler rt pg d req"
  by (simp add: serve_handler_def)

lemma handler_status_200:
  assumes "resp_status (fst (serve_handler rt pg d req)) = 200"
  obtains payload application type due t appData d' data where
      "req_method req = ''POST''" "req_json req = Some payload"
      "application_id payload = Some application" "application \<noteq> []"
      "task_type payload = Some type" "type \<in> set VALID_TYPES"
      "due_at payload = Some due" "due \<noteq> []"
      "Date_parse rt due = Some t" "Date_now rt < t"
      "applications_select_single pg d application = Some appData"
      "tasks_insert pg d (app_tenant_id appData) application type due ''open'' = Some (d', data)"
      "serve_handler rt pg d req = (\<lparr>resp_status = 200, resp_body = Success (tasks_id data)\<rparr>, d')"
  using assms by (cases rule: handler_cases [of req rt pg d]) (simp_all add: json_error_def)

lemma handler_failure_keeps_store:
  assumes "resp_status (fst (serve_handler rt pg d req)) \<noteq> 200"
  shows "snd (serve_handler rt pg d req) = d"
  using assms by (cases rule: handler_cases [of req rt pg d]) simp_all

subsection \<open>Tenant of a created task\<close>

text \<open>
  C1, as the code has it. The handler never reads the identity of the caller: its outcome is
  the same for every caller, and no outcome refuses a caller for its tenant. When the call
  succeeds (status 200), exactly one task has been added to the store, its tenant is the
  tenant of the application that \<^verbatim>\<open>application_id\<close> resolves to, and the response carries
  its id. When the call does not succeed, the store is as it was.
\<close>

theorem create_task_tenant_of_application:
  "serve_handler rt pg d (req\<lparr>req_auth := caller\<rparr>) = serve_handler rt pg d req \<and>
   (resp_status (fst (serve_handler rt pg d req)) = 200 \<longrightarrow>
      (\<exists>payload application appData row.
         req_json req = Some payload \<and> application_id payload = Some application \<and>
         applications_select_single pg d application = Some appData \<and>
         snd (serve_handler rt pg d req) = d\<lparr>tasks := tasks d @ [row]\<rparr> \<and>
         tasks_tenant_id row = app_tenant_id appData \<and>
         resp_body (fst (serve_handler rt pg d req)) = Success (tasks_id row))) \<and>
   (resp_status (fst (serve_handler rt pg d req)) \<noteq> 200 \<longrightarrow>
      snd (serve_handler rt pg d req) = d)"
proof (intro conjI impI)
  show "serve_handler rt pg d (req\<lparr>req_auth := caller\<rparr>) = serve_handler rt pg d req"
    by (rule handler_ignores_caller)
next
  assume "resp_status (fst (serve_handler rt pg d req)) = 200"
  then obtain payload application type due appData d' data where
    p: "req_json req = Some payload" "application_id payload = Some application"
    and a: "applications_select_single pg d application = Some appData"
    and i: "tasks_insert pg d (app_tenant_id appData) application type due ''open'' = Some (d', data)"
    and r: "serve_handler rt pg d req = (\<lparr>resp_status = 200, resp_body = Success (tasks_id data)\<rparr>, d')"
    by (rule handler_status_200)
  from tasks_insert_Some [OF i]
  have "d' = d\<lparr>tasks := tasks d @ [data]\<rparr>" "tasks_tenant_id data = app_tenant_id appData"
    by simp_all
  with p a r show "\<exists>payload application appData row.
         req_json req = Some payload \<and> application_id payload = Some application \<and>
         applications_select_single pg d application = Some appData \<and>
         snd (serve_handler rt pg d req) = d\<lparr>tasks := tasks d @ [row]\<rparr> \<and>
         tasks_tenant_id row = app_tenant_id appData \<and>
         resp_body (fst (serve_handler rt pg d req)) = Success (tasks_id row)"
    by auto
next
  assume "resp_status (fst (serve_handler rt pg d req)) \<noteq> 200"
  then show "snd (serve_handler rt pg d req) = d"
    by (rule handler_failure_keeps_store)
qed

text \<open>
  The claim as stated fails: the counselor of tenant \<open>1\<close> posts a task for the application
  \<open>a2\<close> of tenant \<open>2\<close>, due one second after the clock; the answer is 200 and the store
  holds a new task of tenant \<open>2\<close>.
\<close>

theorem create_task_cross_tenant_counterexample:
  "jwt_tenant_id ex_pg (req_auth (ex_post (ex_payload ''00000000-0000-0000-0000-0000000000a2'' ''call'' ''2030-01-01T00:00:01.000Z''))) = Inr (Some 1) \<and>
   map_option app_tenant_id (applications_select_single ex_pg ex_db ''00000000-0000-0000-0000-0000000000a2'') = Some (Some 2) \<and>
   serve_handler ex_rt ex_pg ex_db
     (ex_post (ex_payload ''00000000-0000-0000-0000-0000000000a2'' ''call'' ''2030-01-01T00:00:01.000Z'')) =
     (\<lparr>resp_status = 200, resp_body = Success 256\<rparr>,
      ex_db\<lparr>tasks := [\<lparr>tasks_id = 256, tasks_tenant_id = Some 2, tasks_application_id = 162,
                        tasks_type = ''call'', tasks_due_at = 1893456001000000,
                        tasks_status = ''open''\<rparr>]\<rparr>)"
  by (simp add: serve_handler_def applications_select_single_def tasks_insert_def jwt_tenant_id_def
      VALID_TYPES_def Let_def ex_defs)

text \<open>The same counselor creates a task for the application \<open>a1\<close> of its own tenant.\<close>

theorem create_task_tenant_of_application_witness:
  "resp_status (fst (serve_handler ex_rt ex_pg ex_db
      (ex_post (ex_payload ''00000000-0000-0000-0000-0000000000a1'' ''email'' ''2030-01-01T00:00:01.000Z'')))) = 200 \<and>
   (\<exists>payload application appData row.
      req_json (ex_post (ex_payload ''00000000-0000-0000-0000-0000000000a1'' ''email'' ''2030-01-01T00:00:01.000Z'')) = Some payload \<and>
      application_id payload = Some application \<and>
      applications_select_single ex_pg ex_db application = Some appData \<and>
      snd (serve_handler ex_rt ex_pg ex_db
        (ex_post (ex_payload ''00000000-0000-0000-0000-0000000000a1'' ''email'' ''2030-01-01T00:00:01.000Z''))) =
        ex_db\<lparr>tasks := tasks ex_db @ [row]\<rparr> \<and>
      tasks_tenant_id row = app_tenant_id appData \<and>
      resp_body (fst (serve_handler ex_rt ex_pg ex_db
        (ex_post (ex_payload ''00000000-0000-0000-0000-0000000000a1'' ''email'' ''2030-01-01T00:00:01.000Z'')))) =
        Success (tasks_id row))"
proof -
  have h: "resp_status (fst (serve_handler ex_rt ex_pg ex_db
      (ex_post (ex_payload ''00000000-0000-0000-0000-0000000000a1'' ''email'' ''2030-01-01T00:00:01.000Z'')))) = 200"
    by (simp add: serve_handler_def applications_select_single_def tasks_insert_def
        VALID_TYPES_def Let_def ex_defs)
  show ?thesis
    using h create_task_tenant_of_application [where rt = ex_rt and pg = ex_pg and d = ex_db
      and req = "ex_post (ex_payload ''00000000-0000-0000-0000-0000000000a1'' ''email'' ''2030-01-01T00:00:01.000Z'')"
      and caller = ex_counselor]
    by blast
qed

subsection \<open>Bodies that are not JSON\<close>

text \<open>
  C9. A POST request whose body is not valid JSON is answered with status 500 and the
  message \<^verbatim>\<open>Internal server error\<close>; the store is untouched.
\<close>

theorem invalid_json_internal_server_error:
  assumes "req_method req = ''POST''" and "req_json req = None"
  shows "serve_handler rt pg d req =
           (\<lparr>resp_status = 500, resp_body = Error ''Internal server error''\<rparr>, d)"
  using assms by (simp add: handler_unparsable json_error_def)

theorem invalid_json_internal_server_error_witness:
  "req_method \<lparr>req_method = ''POST'', req_auth = ex_counselor, req_json = None\<rparr> = ''POST'' \<and>
   req_json \<lparr>req_method = ''POST'', req_auth = ex_counselor, req_json = None\<rparr> = None \<and>
   serve_handler ex_rt ex_pg ex_db \<lparr>req_method = ''POST'', req_auth = ex_counselor, req_json = None\<rparr> =
     (\<lparr>resp_status = 500, resp_body = Error ''Internal server error''\<rparr>, ex_db)"
  using invalid_json_internal_server_error
    [of "\<lparr>req_method = ''POST'', req_auth = ex_counselor, req_json = None\<rparr>" ex_rt ex_pg ex_db]
  by simp

subsection \<open>Empty fields\<close>

text \<open>
  C10. A POST request whose payload has the empty string for \<^verbatim>\<open>application_id\<close>,
  \<^verbatim>\<open>task_type\<close> or \<^verbatim>\<open>due_at\<close> is answered with status 400 and the message
  \<^verbatim>\<open>Missing required fields\<close>, whatever the other fields hold. That answer is given
  exactly when one of the three fields is falsy (absent or empty), so the presence check
  comes before the checks of the type and of the date.
\<close>

theorem empty_field_missing_required_fields:
  assumes "req_method req = ''POST''" and "req_json req = Some payload"
  shows "(application_id payload = Some [] \<or> task_type payload = Some [] \<or>
          due_at payload = Some [] \<longrightarrow>
            serve_handler rt pg d req =
              (\<lparr>resp_status = 400, resp_body = Error ''Missing required fields''\<rparr>, d)) \<and>
         (fst (serve_handler rt pg d req) =
            \<lparr>resp_status = 400, resp_body = Error ''Missing required fields''\<rparr> \<longleftrightarrow>
          falsy (application_id payload) \<or> falsy (task_type payload) \<or> falsy (due_at payload))"
proof (intro conjI impI)
  assume "application_id payload = Some [] \<or> task_type payload = Some [] \<or> due_at payload = Some []"
  then have "falsy (application_id payload) \<or> falsy (task_type payload) \<or> falsy (due_at payload)"
    by (auto simp: falsy_def)
  from handler_missing [OF assms this]
  show "serve_handler rt pg d req =
          (\<lparr>resp_status = 400, resp_body = Error ''Missing required fields''\<rparr>, d)"
    by (simp add: json_error_def)
next
  show "fst (serve_handler rt pg d req) =
            \<lparr>resp_status = 400, resp_body = Error ''Missing required fields''\<rparr> \<longleftrightarrow>
          falsy (application_id payload) \<or> falsy (task_type payload) \<or> falsy (due_at payload)"
    using assms
    by (cases rule: handler_cases [of req rt pg d])
      (auto simp: json_error_def falsy_def join_VALID_TYPES set_VALID_TYPES)
qed

text \<open>An empty \<^verbatim>\<open>due_at\<close> next to a task type outside the closed set.\<close>

theorem empty_field_missing_required_fields_witness:
  "req_method (ex_post (ex_payload ''00000000-0000-0000-0000-0000000000a1'' ''sms'' [])) = ''POST'' \<and>
   req_json (ex_post (ex_payload ''00000000-0000-0000-0000-0000000000a1'' ''sms'' [])) =
     Some (ex_payload ''00000000-0000-0000-0000-0000000000a1'' ''sms'' []) \<and>
   due_at (ex_payload ''00000000-0000-0000-0000-0000000000a1'' ''sms'' []) = Some [] \<and>
   serve_handler ex_rt ex_pg ex_db
     (ex_post (ex_payload ''00000000-0000-0000-0000-0000000000a1'' ''sms'' [])) =
     (\<lparr>resp_status = 400, resp_body = Error ''Missing required fields''\<rparr>, ex_db)"
  using empty_field_missing_required_fields
    [of "ex_post (ex_payload ''00000000-0000-0000-0000-0000000000a1'' ''sms'' [])"
        "ex_payload ''00000000-0000-0000-0000-0000000000a1'' ''sms'' []" ex_rt ex_pg ex_db]
  by (simp add: ex_post_def ex_payload_def)


subsection \<open>The closed set of task types\<close>

text \<open>
  C7. The task types are \<^verbatim>\<open>call\<close>, \<^verbatim>\<open>email\<close> and \<^verbatim>\<open>review\<close>. A POST request whose
  \<^verbatim>\<open>task_type\<close> is none of them is answered with status 400 and leaves the store as it
  was; a request that is answered with 200 has one of them; and the answer is the message
  about the task type exactly when the three fields are present and the type is outside
  the set, so a type inside the set is never refused as a type.
\<close>

theorem task_type_closed_set:
  assumes "req_method req = ''POST''" and "req_json req = Some payload"
  shows "set VALID_TYPES = {''call'', ''email'', ''review''} \<and>
         (task_type payload \<notin> Some ` set VALID_TYPES \<longrightarrow>
            resp_status (fst (serve_handler rt pg d req)) = 400 \<and>
            snd (serve_handler rt pg d req) = d) \<and>
         (resp_status (fst (serve_handler rt pg d req)) = 200 \<longrightarrow>
            task_type payload \<in> Some ` set VALID_TYPES) \<and>
         (fst (serve_handler rt pg d req) =
            \<lparr>resp_status = 400,
             resp_body = Error ''Invalid task_type. Must be one of: call, email, review''\<rparr> \<longleftrightarrow>
          \<not> falsy (application_id payload) \<and> \<not> falsy (task_type payload) \<and>
          \<not> falsy (due_at payload) \<and> task_type payload \<notin> Some ` set VALID_TYPES)"
proof -
  have closed: "task_type payload \<notin> Some ` set VALID_TYPES \<Longrightarrow>
      resp_status (fst (serve_handler rt pg d req)) = 400 \<and> snd (serve_handler rt pg d req) = d"
    using assms
    by (cases rule: handler_cases [of req rt pg d]) (auto simp: json_error_def)
  have accepted: "resp_status (fst (serve_handler rt pg d req)) = 200 \<Longrightarrow>
      task_type payload \<in> Some ` set VALID_TYPES"
    using closed by fastforce
  have msg: "fst (serve_handler rt pg d req) =
            \<lparr>resp_status = 400,
             resp_body = Error ''Invalid task_type. Must be one of: call, email, review''\<rparr> \<longleftrightarrow>
          \<not> falsy (application_id payload) \<and> \<not> falsy (task_type payload) \<and>
          \<not> falsy (due_at payload) \<and> task_type payload \<notin> Some ` set VALID_TYPES"
    using assms
    by (cases rule: handler_cases [of req rt pg d])
      (auto simp: json_error_def falsy_def join_VALID_TYPES set_VALID_TYPES)
  show ?thesis
    using closed accepted msg set_VALID_TYPES by blast
qed

text \<open>The type \<^verbatim>\<open>sms\<close> is refused and the type \<^verbatim>\<open>review\<close> is accepted.\<close>

theorem task_type_closed_set_witness:
  "req_method (ex_post (ex_payload ''00000000-0000-0000-0000-0000000000a1'' ''sms'' ''2030-01-01T00:00:01.000Z'')) = ''POST'' \<and>
   task_type (ex_payload ''00000000-0000-0000-0000-0000000000a1'' ''sms'' ''2030-01-01T00:00:01.000Z'') \<notin> Some ` set VALID_TYPES \<and>
   serve_handler ex_rt ex_pg ex_db
     (ex_post (ex_payload ''00000000-0000-0000-0000-0000000000a1'' ''sms'' ''2030-01-01T00:00:01.000Z'')) =
     (\<lparr>resp_status = 400,
       resp_body = Error ''Invalid task_type. Must be one of: call, email, review''\<rparr>, ex_db) \<and>
   resp_status (fst (serve_handler ex_rt ex_pg ex_db
     (ex_post (ex_payload ''00000000-0000-0000-0000-0000000000a1'' ''review'' ''2030-01-01T00:00:01.000Z'')))) = 200 \<and>
   task_type (ex_payload ''00000000-0000-0000-0000-0000000000a1'' ''review'' ''2030-01-01T00:00:01.000Z'') \<in> Some ` set VALID_TYPES"
proof -
  let ?sms = "ex_payload ''00000000-0000-0000-0000-0000000000a1'' ''sms'' ''2030-01-01T00:00:01.000Z''"
  let ?review = "ex_payload ''00000000-0000-0000-0000-0000000000a1'' ''review'' ''2030-01-01T00:00:01.000Z''"
  have p: "req_method (ex_post ?sms) = ''POST''" "req_json (ex_post ?sms) = Some ?sms"
    "req_method (ex_post ?review) = ''POST''" "req_json (ex_post ?review) = Some ?review"
    by (simp_all add: ex_post_def)
  have f: "\<not> falsy (application_id ?sms)" "\<not> falsy (task_type ?sms)" "\<not> falsy (due_at ?sms)"
    "task_type ?sms \<notin> Some ` set VALID_TYPES"
    by (simp_all add: falsy_def ex_payload_def set_VALID_TYPES)
  have ok: "resp_status (fst (serve_handler ex_rt ex_pg ex_db (ex_post ?review))) = 200"
    by (simp add: serve_handler_def applications_select_single_def tasks_insert_def
        VALID_TYPES_def Let_def ex_defs)
  show ?thesis
    using p f ok
      task_type_closed_set [OF p(1,2), of ex_rt ex_pg ex_db]
      task_type_closed_set [OF p(3,4), of ex_rt ex_pg ex_db]
    by (metis prod.collapse)
qed

subsection \<open>Due dates\<close>

text \<open>
  C6. A POST request whose \<^verbatim>\<open>due_at\<close> does not parse as a date, or parses to a time that
  is not after the clock (the clock's own time included), is answered with status 400 and
  leaves the store as it was. The answer is the message about the date exactly when the
  other checks before it pass and the date fails in one of these two ways, so a date
  after the clock is never refused as a date; with the other fields valid, the
  application found and the row taken by the store, such a request is answered with 200.
\<close>

theorem due_at_strictly_future:
  assumes "req_method req = ''POST''" and "req_json req = Some payload"
    and "due_at payload = Some due"
  shows "(Date_parse rt due = None \<or> (\<exists>t. Date_parse rt due = Some t \<and> t \<le> Date_now rt) \<longrightarrow>
            resp_status (fst (serve_handler rt pg d req)) = 400 \<and>
            snd (serve_handler rt pg d req) = d) \<and>
         (fst (serve_handler rt pg d req) =
            \<lparr>resp_status = 400, resp_body = Error ''due_at must be a valid date in the future''\<rparr> \<longleftrightarrow>
          \<not> falsy (application_id payload) \<and> task_type payload \<in> Some ` set VALID_TYPES \<and>
          due \<noteq> [] \<and>
          (Date_parse rt due = None \<or> (\<exists>t. Date_parse rt due = Some t \<and> t \<le> Date_now rt))) \<and>
         (\<forall>application type t appData d' data.
            application_id payload = Some application \<and> application \<noteq> [] \<and>
            task_type payload = Some type \<and> type \<in> set VALID_TYPES \<and> due \<noteq> [] \<and>
            Date_parse rt due = Some t \<and> Date_now rt < t \<and>
            applications_select_single pg d application = Some appData \<and>
            tasks_insert pg d (app_tenant_id appData) application type due ''open'' = Some (d', data) \<longrightarrow>
            serve_handler rt pg d req =
              (\<lparr>resp_status = 200, resp_body = Success (tasks_id data)\<rparr>, d'))"
proof (intro conjI allI impI)
  assume "Date_parse rt due = None \<or> (\<exists>t. Date_parse rt due = Some t \<and> t \<le> Date_now rt)"
  then show "resp_status (fst (serve_handler rt pg d req)) = 400"
    using assms
    by (cases rule: handler_cases [of req rt pg d]) (auto simp: json_error_def)
next
  assume "Date_parse rt due = None \<or> (\<exists>t. Date_parse rt due = Some t \<and> t \<le> Date_now rt)"
  then show "snd (serve_handler rt pg d req) = d"
    using assms
    by (cases rule: handler_cases [of req rt pg d]) (auto simp: json_error_def)
next
  show "fst (serve_handler rt pg d req) =
            \<lparr>resp_status = 400, resp_body = Error ''due_at must be a valid date in the future''\<rparr> \<longleftrightarrow>
          \<not> falsy (application_id payload) \<and> task_type payload \<in> Some ` set VALID_TYPES \<and>
          due \<noteq> [] \<and>
          (Date_parse rt due = None \<or> (\<exists>t. Date_parse rt due = Some t \<and> t \<le> Date_now rt))"
    using assms
    by (cases rule: handler_cases [of req rt pg d])
      (auto simp: json_error_def falsy_def join_VALID_TYPES set_VALID_TYPES)
next
  fix application type t appData d' data
  assume "application_id payload = Some application \<and> application \<noteq> [] \<and>
            task_type payload = Some type \<and> type \<in> set VALID_TYPES \<and> due \<noteq> [] \<and>
            Date_parse rt due = Some t \<and> Date_now rt < t \<and>
            applications_select_single pg d application = Some appData \<and>
            tasks_insert pg d (app_tenant_id appData) application type due ''open'' = Some (d', data)"
  then show "serve_handler rt pg d req =
              (\<lparr>resp_status = 200, resp_body = Success (tasks_id data)\<rparr>, d')"
    using handler_validated [OF assms(1,2), of application type due rt t pg d] assms(3)
    by simp
qed

text \<open>
  A \<^verbatim>\<open>due_at\<close> equal to the clock is refused; one second later it is accepted and the
  task is stored.
\<close>

theorem due_at_strictly_future_witness:
  "Date_parse ex_rt ''2030-01-01T00:00:00.000Z'' = Some (Date_now ex_rt) \<and>
   resp_status (fst (serve_handler ex_rt ex_pg ex_db
     (ex_post (ex_payload ''00000000-0000-0000-0000-0000000000a1'' ''call'' ''2030-01-01T00:00:00.000Z'')))) = 400 \<and>
   snd (serve_handler ex_rt ex_pg ex_db
     (ex_post (ex_payload ''00000000-0000-0000-0000-0000000000a1'' ''call'' ''2030-01-01T00:00:00.000Z''))) = ex_db \<and>
   Date_parse ex_rt ''2030-01-01T00:00:01.000Z'' = Some (Date_now ex_rt + 1000) \<and>
   serve_handler ex_rt ex_pg ex_db
     (ex_post (ex_payload ''00000000-0000-0000-0000-0000000000a1'' ''call'' ''2030-01-01T00:00:01.000Z'')) =
     (\<lparr>resp_status = 200, resp_body = Success 256\<rparr>,
      ex_db\<lparr>tasks := [\<lparr>tasks_id = 256, tasks_tenant_id = Some 1, tasks_application_id = 161,
                        tasks_type = ''call'', tasks_due_at = 1893456001000000,
                        tasks_status = ''open''\<rparr>]\<rparr>)"
proof -
  let ?now = "ex_payload ''00000000-0000-0000-0000-0000000000a1'' ''call'' ''2030-01-01T00:00:00.000Z''"
  let ?later = "ex_payload ''00000000-0000-0000-0000-0000000000a1'' ''call'' ''2030-01-01T00:00:01.000Z''"
  let ?row = "\<lparr>tasks_id = 256, tasks_tenant_id = Some 1, tasks_application_id = 161,
               tasks_type = ''call'', tasks_due_at = 1893456001000000, tasks_status = ''open''\<rparr>"
  have p: "req_method (ex_post ?now) = ''POST''" "req_json (ex_post ?now) = Some ?now"
    "due_at ?now = Some ''2030-01-01T00:00:00.000Z''"
    "req_method (ex_post ?later) = ''POST''" "req_json (ex_post ?later) = Some ?later"
    "due_at ?later = Some ''2030-01-01T00:00:01.000Z''"
    by (simp_all add: ex_post_def ex_payload_def)
  have t: "Date_parse ex_rt ''2030-01-01T00:00:00.000Z'' = Some (Date_now ex_rt)"
    "Date_parse ex_rt ''2030-01-01T00:00:01.000Z'' = Some (Date_now ex_rt + 1000)"
    by (simp_all add: ex_rt_def ex_Date_parse_def)
  have f: "application_id ?later = Some ''00000000-0000-0000-0000-0000000000a1''"
    "task_type ?later = Some ''call''" "''call'' \<in> set VALID_TYPES"
    by (simp_all add: ex_payload_def set_VALID_TYPES)
  have a: "applications_select_single ex_pg ex_db ''00000000-0000-0000-0000-0000000000a1'' =
      Some \<lparr>app_id = 161, app_tenant_id = Some 1\<rparr>"
    by (simp add: applications_select_single_def ex_defs)
  have i: "tasks_insert ex_pg ex_db (Some 1) ''00000000-0000-0000-0000-0000000000a1'' ''call''
      ''2030-01-01T00:00:01.000Z'' ''open'' = Some (ex_db\<lparr>tasks := [?row]\<rparr>, ?row)"
    by (simp add: tasks_insert_def Let_def ex_defs)
  have rejected: "resp_status (fst (serve_handler ex_rt ex_pg ex_db (ex_post ?now))) = 400 \<and>
      snd (serve_handler ex_rt ex_pg ex_db (ex_post ?now)) = ex_db"
    using due_at_strictly_future [OF p(1,2,3), of ex_rt ex_pg ex_db] t(1) by simp
  have accepted: "serve_handler ex_rt ex_pg ex_db (ex_post ?later) =
      (\<lparr>resp_status = 200, resp_body = Success 256\<rparr>, ex_db\<lparr>tasks := [?row]\<rparr>)"
    using due_at_strictly_future [OF p(4,5,6), of ex_rt ex_pg ex_db] t(2) f a i by simp
  show ?thesis
    using t rejected accepted by simp
qed


section \<open>Properties of the dashboard\<close>

subsection \<open>The tasks due today\<close>

lemma tasks_select_due_Some:
  "\<not> unavailable pg \<Longrightarrow>
   tasks_select_due pg d start_ms end_ms =
     Some (sort_key tasks_due_at
       (filter (\<lambda>t. tasks_status t \<noteq> ''completed'' \<and>
                     timestamptz_of_ms start_ms \<le> tasks_due_at t \<and>
                     tasks_due_at t \<le> timestamptz_of_ms end_ms) (tasks d)))"
  by (simp add: tasks_select_due_def)

lemma fetchTasks_available:
  "\<not> unavailable pg \<Longrightarrow>
   st_tasks (fetchTasks rt pg d st) =
     sort_key tasks_due_at
       (filter (\<lambda>t. tasks_status t \<noteq> ''completed'' \<and>
                     timestamptz_of_ms (startOfDay rt) \<le> tasks_due_at t \<and>
                     tasks_due_at t \<le> timestamptz_of_ms (endOfDay rt)) (tasks d))"
  by (simp add: fetchTasks_def tasks_select_due_Some)

lemma fetchTasks_unavailable:
  "unavailable pg \<Longrightarrow>
   fetchTasks rt pg d st = st\<lparr>st_loading := False, st_error := Some ''Failed to load tasks''\<rparr>"
  by (simp add: fetchTasks_def tasks_select_due_def)

lemma set_fetchTasks:
  "\<not> unavailable pg \<Longrightarrow>
   t \<in> set (st_tasks (fetchTasks rt pg d st)) \<longleftrightarrow>
     t \<in> set (tasks d) \<and> tasks_status t \<noteq> ''completed'' \<and>
     timestamptz_of_ms (startOfDay rt) \<le> tasks_due_at t \<and>
     tasks_due_at t \<le> timestamptz_of_ms (endOfDay rt)"
  by (simp add: fetchTasks_available)

lemma fixed_offset_day:
  assumes "\<forall>t is_utc. LocalTZA rt t is_utc = offset"
  shows "endOfDay rt = startOfDay rt + 86399999 \<and> startOfDay rt \<le> Date_now rt \<and>
         Date_now rt \<le> endOfDay rt"
proof -
  define x where "x = Date_now rt + offset"
  have s: "startOfDay rt = x div 86400000 * 86400000 - offset"
    using assms by (simp add: startOfDay_def setHours_def Day_def msPerDay_def MakeTime_def x_def)
  have e: "endOfDay rt = x div 86400000 * 86400000 + 86399999 - offset"
    using assms by (simp add: endOfDay_def s setHours_def Day_def msPerDay_def MakeTime_def)
  have "x div 86400000 * 86400000 \<le> x" "x < x div 86400000 * 86400000 + 86400000"
    by presburger+
  then show ?thesis using s e by (simp add: x_def)
qed


lemma ex_noon_day: "startOfDay ex_noon = 1893456000000" "endOfDay ex_noon = 1893542399999"
  by (simp_all add: startOfDay_def endOfDay_def setHours_def Day_def msPerDay_def MakeTime_def
      ex_noon_def)

text \<open>
  C5, as the code has it. When the store answers, \<^verbatim>\<open>fetchTasks\<close> leaves in the component
  exactly the tasks of the store, of whatever tenant, that are not completed and are due
  from \<open>startOfDay\<close> to \<open>endOfDay\<close>, both ends included, in ascending order of \<^verbatim>\<open>due_at\<close>.
  A task due at \<open>endOfDay\<close> is listed, a task due one millisecond later is not, and a
  completed task is not, whenever it is due. In a zone with a fixed offset \<open>endOfDay\<close> is
  86399999 ms after \<open>startOfDay\<close> and the clock lies between the two.
\<close>

theorem fetchTasks_due_today:
  assumes "\<not> unavailable pg"
  shows "mset (st_tasks (fetchTasks rt pg d st)) =
           filter_mset (\<lambda>t. tasks_status t \<noteq> ''completed'' \<and>
                              timestamptz_of_ms (startOfDay rt) \<le> tasks_due_at t \<and>
                              tasks_due_at t \<le> timestamptz_of_ms (endOfDay rt)) (mset (tasks d)) \<and>
         sorted (map tasks_due_at (st_tasks (fetchTasks rt pg d st))) \<and>
         (\<forall>t \<in> set (tasks d). tasks_status t \<noteq> ''completed'' \<and> startOfDay rt \<le> endOfDay rt \<and>
            tasks_due_at t = timestamptz_of_ms (endOfDay rt) \<longrightarrow>
            t \<in> set (st_tasks (fetchTasks rt pg d st))) \<and>
         (\<forall>t. tasks_due_at t = timestamptz_of_ms (endOfDay rt + 1) \<longrightarrow>
            t \<notin> set (st_tasks (fetchTasks rt pg d st))) \<and>
         (\<forall>t. tasks_status t = ''completed'' \<longrightarrow> t \<notin> set (st_tasks (fetchTasks rt pg d st))) \<and>
         ((\<forall>t is_utc. LocalTZA rt t is_utc = offset) \<longrightarrow>
            endOfDay rt = startOfDay rt + 86399999 \<and> startOfDay rt \<le> Date_now rt \<and>
            Date_now rt \<le> endOfDay rt)"
proof (intro conjI)
  show "mset (st_tasks (fetchTasks rt pg d st)) =
           filter_mset (\<lambda>t. tasks_status t \<noteq> ''completed'' \<and>
                              timestamptz_of_ms (startOfDay rt) \<le> tasks_due_at t \<and>
                              tasks_due_at t \<le> timestamptz_of_ms (endOfDay rt)) (mset (tasks d))"
    using assms by (simp add: fetchTasks_available)
  show "sorted (map tasks_due_at (st_tasks (fetchTasks rt pg d st)))"
    using assms by (simp add: fetchTasks_available)
  show "\<forall>t \<in> set (tasks d). tasks_status t \<noteq> ''completed'' \<and> startOfDay rt \<le> endOfDay rt \<and>
            tasks_due_at t = timestamptz_of_ms (endOfDay rt) \<longrightarrow>
            t \<in> set (st_tasks (fetchTasks rt pg d st))"
    using assms by (simp add: set_fetchTasks timestamptz_of_ms_def)
  show "\<forall>t. tasks_due_at t = timestamptz_of_ms (endOfDay rt + 1) \<longrightarrow>
            t \<notin> set (st_tasks (fetchTasks rt pg d st))"
    using assms by (simp add: set_fetchTasks timestamptz_of_ms_def)
  show "\<forall>t. tasks_status t = ''completed'' \<longrightarrow> t \<notin> set (st_tasks (fetchTasks rt pg d st))"
    using assms by (simp add: set_fetchTasks)
  show "(\<forall>t is_utc. LocalTZA rt t is_utc = offset) \<longrightarrow>
            endOfDay rt = startOfDay rt + 86399999 \<and> startOfDay rt \<le> Date_now rt \<and>
            Date_now rt \<le> endOfDay rt"
    using fixed_offset_day by blast
qed

text \<open>
  The claim as stated fails: the query has no condition on the tenant. Over the store with
  tasks of two tenants the component lists the task of tenant \<open>2\<close> before the task of
  tenant \<open>1\<close>, whereas the listing worded by the specification, for a principal of tenant
  \<open>1\<close>, holds the second only.
\<close>

theorem fetchTasks_all_tenants_counterexample:
  "st_tasks (fetchTasks ex_noon ex_pg ex_tasks_db ex_dashboard) =
     [ex_task 257 2 1893456000000000 ''open'', ex_task 256 1 1893542399999000 ''open''] \<and>
   map tasks_tenant_id (st_tasks (fetchTasks ex_noon ex_pg ex_tasks_db ex_dashboard)) =
     [Some 2, Some 1] \<and>
   spec_ListDueToday 1 (startOfDay ex_noon) (endOfDay ex_noon) (tasks ex_tasks_db) =
     [ex_task 256 1 1893542399999000 ''open''] \<and>
   st_tasks (fetchTasks ex_noon ex_pg ex_tasks_db ex_dashboard) \<noteq>
     spec_ListDueToday 1 (startOfDay ex_noon) (endOfDay ex_noon) (tasks ex_tasks_db)"
  by (simp add: fetchTasks_def tasks_select_due_def spec_ListDueToday_def ex_noon_day
      timestamptz_of_ms_def ex_tasks_db_def ex_task_def ex_pg_def ex_dashboard_def)

text \<open>
  At noon of 2030-01-01: the task due at 23:59:59.999 is listed, the task due at
  00:00:00.000 of the next day and the completed task are not.
\<close>

theorem fetchTasks_due_today_witness:
  "\<not> unavailable ex_pg \<and> (\<forall>t is_utc. LocalTZA ex_noon t is_utc = 0) \<and>
   startOfDay ex_noon \<le> endOfDay ex_noon \<and>
   ex_task 256 1 (timestamptz_of_ms (endOfDay ex_noon)) ''open'' \<in> set (tasks ex_tasks_db) \<and>
   ex_task 256 1 (timestamptz_of_ms (endOfDay ex_noon)) ''open''
     \<in> set (st_tasks (fetchTasks ex_noon ex_pg ex_tasks_db ex_dashboard)) \<and>
   ex_task 258 1 (timestamptz_of_ms (endOfDay ex_noon + 1)) ''open'' \<in> set (tasks ex_tasks_db) \<and>
   ex_task 258 1 (timestamptz_of_ms (endOfDay ex_noon + 1)) ''open''
     \<notin> set (st_tasks (fetchTasks ex_noon ex_pg ex_tasks_db ex_dashboard)) \<and>
   ex_task 259 1 1893499200000000 ''completed'' \<in> set (tasks ex_tasks_db) \<and>
   ex_task 259 1 1893499200000000 ''completed''
     \<notin> set (st_tasks (fetchTasks ex_noon ex_pg ex_tasks_db ex_dashboard)) \<and>
   sorted (map tasks_due_at (st_tasks (fetchTasks ex_noon ex_pg ex_tasks_db ex_dashboard))) \<and>
   endOfDay ex_noon = startOfDay ex_noon + 86399999"
proof -
  have a: "\<not> unavailable ex_pg"
    by (simp add: ex_pg_def)
  have z: "\<forall>t is_utc. LocalTZA ex_noon t is_utc = 0"
    by (simp add: ex_noon_def)
  have m: "ex_task 256 1 (timestamptz_of_ms (endOfDay ex_noon)) ''open'' \<in> set (tasks ex_tasks_db)"
    "ex_task 258 1 (timestamptz_of_ms (endOfDay ex_noon + 1)) ''open'' \<in> set (tasks ex_tasks_db)"
    "ex_task 259 1 1893499200000000 ''completed'' \<in> set (tasks ex_tasks_db)"
    by (simp_all add: ex_tasks_db_def ex_noon_day timestamptz_of_ms_def)
  have f: "tasks_status (ex_task 256 1 (timestamptz_of_ms (endOfDay ex_noon)) ''open'') \<noteq> ''completed''"
    "tasks_due_at (ex_task 256 1 (timestamptz_of_ms (endOfDay ex_noon)) ''open'') =
       timestamptz_of_ms (endOfDay ex_noon)"
    "tasks_due_at (ex_task 258 1 (timestamptz_of_ms (endOfDay ex_noon + 1)) ''open'') =
       timestamptz_of_ms (endOfDay ex_noon + 1)"
    "tasks_status (ex_task 259 1 1893499200000000 ''completed'') = ''completed''"
    "startOfDay ex_noon \<le> endOfDay ex_noon"
    by (simp_all add: ex_task_def ex_noon_day)
  show ?thesis
    using a z m f
      fetchTasks_due_today [OF a, of ex_noon ex_tasks_db ex_dashboard 0]
    by blast
qed

subsection \<open>Completing a task twice\<close>

lemma tasks_update_completed_Some:
  "\<not> unavailable pg \<Longrightarrow>
   tasks_update_completed pg d i =
     Some (d\<lparr>tasks := map (\<lambda>t. if tasks_id t = i then t\<lparr>tasks_status := ''completed''\<rparr> else t)
                          (tasks d)\<rparr>)"
  by (simp add: tasks_update_completed_def)

lemma tasks_update_completed_idem:
  assumes "tasks_update_completed pg1 d i = Some d1" and "\<not> unavailable pg2"
  shows "tasks_update_completed pg2 d1 i = Some d1"
proof -
  have "d1 = d\<lparr>tasks := map (\<lambda>t. if tasks_id t = i then t\<lparr>tasks_status := ''completed''\<rparr> else t)
                            (tasks d)\<rparr>"
    using assms(1) by (simp add: tasks_update_completed_def split: if_splits)
  then show ?thesis
    using assms(2) by (simp add: tasks_update_completed_def o_def cong: map_cong)
qed

lemma markComplete_available:
  "tasks_update_completed pg d i = Some d' \<Longrightarrow>
   markComplete rt pg d st i =
     (st\<lparr>st_tasks := filter (\<lambda>task. tasks_id task \<noteq> i) (st_tasks st)\<rparr>, d')"
  by (simp add: markComplete_def)

text \<open>
  C4. \<^verbatim>\<open>markComplete\<close> is called twice with the id of a task of the store, the store
  answering both times. Both updates succeed and neither call shows an alert or sets the
  error of the component; after the first call the task is completed; the second call
  leaves the store and the component exactly as the first left them.
\<close>

theorem markComplete_twice:
  assumes "\<not> unavailable pg1" and "\<not> unavailable pg2" and "t \<in> set (tasks d)" and "tasks_id t = i"
  shows "\<exists>st1 d1 st2 d2.
           markComplete rt1 pg1 d st i = (st1, d1) \<and> tasks_update_completed pg1 d i = Some d1 \<and>
           markComplete rt2 pg2 d1 st1 i = (st2, d2) \<and> tasks_update_completed pg2 d1 i = Some d2 \<and>
           st_alerts st1 = st_alerts st \<and> st_alerts st2 = st_alerts st \<and>
           st_error st1 = st_error st \<and> st_error st2 = st_error st \<and>
           d2 = d1 \<and> st2 = st1 \<and>
           (\<exists>t' \<in> set (tasks d2). tasks_id t' = i) \<and>
           (\<forall>t' \<in> set (tasks d2). tasks_id t' = i \<longrightarrow> tasks_status t' = ''completed'')"
proof -
  define d1 where
    "d1 = d\<lparr>tasks := map (\<lambda>t. if tasks_id t = i then t\<lparr>tasks_status := ''completed''\<rparr> else t)
                          (tasks d)\<rparr>"
  define st1 where "st1 = st\<lparr>st_tasks := filter (\<lambda>task. tasks_id task \<noteq> i) (st_tasks st)\<rparr>"
  have u1: "tasks_update_completed pg1 d i = Some d1"
    using assms(1) by (simp add: tasks_update_completed_Some d1_def)
  have u2: "tasks_update_completed pg2 d1 i = Some d1"
    using u1 assms(2) by (rule tasks_update_completed_idem)
  have m1: "markComplete rt1 pg1 d st i = (st1, d1)"
    unfolding st1_def by (rule markComplete_available [OF u1])
  have m2: "markComplete rt2 pg2 d1 st1 i = (st1, d1)"
    using markComplete_available [OF u2, of rt2 st1] by (simp add: st1_def)
  have mem: "t\<lparr>tasks_status := ''completed''\<rparr> \<in> set (tasks d1)"
    using assms(3,4) by (force simp: d1_def)
  have ex: "\<exists>t' \<in> set (tasks d1). tasks_id t' = i"
  proof (rule bexI)
    show "tasks_id (t\<lparr>tasks_status := ''completed''\<rparr>) = i"
      using assms(4) by simp
    show "t\<lparr>tasks_status := ''completed''\<rparr> \<in> set (tasks d1)"
      by (rule mem)
  qed
  have all: "\<forall>t' \<in> set (tasks d1). tasks_id t' = i \<longrightarrow> tasks_status t' = ''completed''"
  proof -
    let ?g = "\<lambda>t. if tasks_id t = i then t\<lparr>tasks_status := ''completed''\<rparr> else t"
    have g: "tasks_id (?g x) = i \<longrightarrow> tasks_status (?g x) = ''completed''" for x
      by simp
    have "tasks d1 = map ?g (tasks d)"
      by (simp add: d1_def)
    then have "set (tasks d1) = ?g ` set (tasks d)"
      by (simp only: set_map)
    then show ?thesis
      using g by (simp only: ball_simps) blast
  qed
  have s: "st_alerts st1 = st_alerts st" "st_error st1 = st_error st"
    by (simp_all add: st1_def)
  show ?thesis
  proof (intro exI conjI)
    show "markComplete rt1 pg1 d st i = (st1, d1)" by (rule m1)
    show "tasks_update_completed pg1 d i = Some d1" by (rule u1)
    show "markComplete rt2 pg2 d1 st1 i = (st1, d1)" by (rule m2)
    show "tasks_update_completed pg2 d1 i = Some d1" by (rule u2)
    show "st_alerts st1 = st_alerts st" "st_alerts st1 = st_alerts st" by (rule s(1))+
    show "st_error st1 = st_error st" "st_error st1 = st_error st" by (rule s(2))+
    show "d1 = d1" "st1 = st1" by (rule refl)+
    show "\<exists>t' \<in> set (tasks d1). tasks_id t' = i" by (rule ex)
    show "\<forall>t' \<in> set (tasks d1). tasks_id t' = i \<longrightarrow> tasks_status t' = ''completed''"
      by (rule all)
  qed
qed

text \<open>The task \<open>256\<close> of the store above, completed twice.\<close>

theorem markComplete_twice_witness:
  "\<not> unavailable ex_pg \<and> ex_task 256 1 1893542399999000 ''open'' \<in> set (tasks ex_tasks_db) \<and>
   tasks_id (ex_task 256 1 1893542399999000 ''open'') = 256 \<and>
   map tasks_id (st_tasks (fetchTasks ex_noon ex_pg ex_tasks_db ex_dashboard)) = [257, 256] \<and>
   map tasks_id (st_tasks (fst (markComplete ex_noon ex_pg ex_tasks_db
      (fetchTasks ex_noon ex_pg ex_tasks_db ex_dashboard) 256))) = [257] \<and>
   st_alerts (fst (markComplete ex_noon ex_pg ex_tasks_db
      (fetchTasks ex_noon ex_pg ex_tasks_db ex_dashboard) 256)) = [] \<and>
   map tasks_status (tasks (snd (markComplete ex_noon ex_pg ex_tasks_db
      (fetchTasks ex_noon ex_pg ex_tasks_db ex_dashboard) 256))) =
     [''completed'', ''open'', ''open'', ''completed''] \<and>
   markComplete ex_noon ex_pg
     (snd (markComplete ex_noon ex_pg ex_tasks_db
        (fetchTasks ex_noon ex_pg ex_tasks_db ex_dashboard) 256))
     (fst (markComplete ex_noon ex_pg ex_tasks_db
        (fetchTasks ex_noon ex_pg ex_tasks_db ex_dashboard) 256)) 256 =
     markComplete ex_noon ex_pg ex_tasks_db (fetchTasks ex_noon ex_pg ex_tasks_db ex_dashboard) 256"
proof -
  let ?st = "fetchTasks ex_noon ex_pg ex_tasks_db ex_dashboard"
  have a: "\<not> unavailable ex_pg"
    by (simp add: ex_pg_def)
  have m: "ex_task 256 1 1893542399999000 ''open'' \<in> set (tasks ex_tasks_db)"
    by (simp add: ex_tasks_db_def)
  have i: "tasks_id (ex_task 256 1 1893542399999000 ''open'') = 256"
    by (simp add: ex_task_def)
  have l: "st_tasks ?st =
      [ex_task 257 2 1893456000000000 ''open'', ex_task 256 1 1893542399999000 ''open'']"
    "st_alerts ?st = []"
    by (simp_all add: fetchTasks_def tasks_select_due_def ex_noon_day timestamptz_of_ms_def
        ex_tasks_db_def ex_task_def ex_pg_def ex_dashboard_def)
  have c: "map tasks_id (st_tasks (fst (markComplete ex_noon ex_pg ex_tasks_db ?st 256))) = [257]"
    "map tasks_status (tasks (snd (markComplete ex_noon ex_pg ex_tasks_db ?st 256))) =
       [''completed'', ''open'', ''open'', ''completed'']"
    by (simp_all add: markComplete_available [OF tasks_update_completed_Some [OF a]] l)
      (simp_all add: ex_tasks_db_def ex_task_def)
  obtain st1 d1 st2 d2 where
    r: "markComplete ex_noon ex_pg ex_tasks_db ?st 256 = (st1, d1)"
      "markComplete ex_noon ex_pg d1 st1 256 = (st2, d2)"
      "st_alerts st1 = st_alerts ?st" "d2 = d1" "st2 = st1"
    using markComplete_twice [OF a a m i, of ex_noon ?st ex_noon] by blast
  show ?thesis
    using a m i l c r by (simp add: ex_task_def)
qed

end
